theory Spec2Isabelle
  imports Complex_Main "HOL-Library.AList" "HOL-Library.Sublist"
begin

section \<open>Numbers\<close>

text \<open>
  The strategy mixes Python \<open>Decimal\<close>, \<open>float\<close> and \<open>int\<close>. All three are embedded
  as exact numbers: \<open>Decimal\<close> and \<open>float\<close> as \<^typ>\<open>rat\<close>, \<open>int\<close> as \<^typ>\<open>int\<close>.
  The conversions \<open>float(d)\<close> and \<open>Decimal(str(x))\<close> are the identity in this embedding;
  rounding to 53 bits (or to the 28 digits of the decimal context) is not modelled.
  What Python raises is modelled: a division whose divisor is zero is an error value.
\<close>

datatype py_error =
    ZeroDivisionError
  | IndexError
  | KeyError string
  | ValueError string
  | FileNotFoundError

definition py_truediv :: "rat \<Rightarrow> rat \<Rightarrow> py_error + rat" where
  "py_truediv a b = (if b = 0 then Inl ZeroDivisionError else Inr (a / b))"

text \<open>\<open>int(x)\<close> on a float truncates towards zero.\<close>

definition py_int :: "rat \<Rightarrow> int" where
  "py_int x = (if 0 \<le> x then \<lfloor>x\<rfloor> else \<lceil>x\<rceil>)"

text \<open>
  The slice \<open>xs[:n]\<close>: the first \<open>n\<close> elements, and for a negative \<open>n\<close> all but the
  last \<open>-n\<close>.
\<close>

definition py_slice_to :: "int \<Rightarrow> 'a list \<Rightarrow> 'a list" where
  "py_slice_to n xs =
     (if 0 \<le> n then take (nat n) xs else take (length xs - nat (- n)) xs)"

section \<open>portfolio.py\<close>

record Position =
  symbol :: string
  quantity :: int
  entry_price :: rat
  current_price :: rat
  delta :: rat
  option_type :: string
  strike_price :: int
  expiry :: string

definition pnl :: "Position \<Rightarrow> rat" where
  "pnl p = (current_price p - entry_price p) * of_int (quantity p)"

definition net_delta :: "Position \<Rightarrow> rat" where
  "net_delta p = delta p * of_int (quantity p)"

text \<open>
  \<open>PortfolioManager.positions\<close> is a dict keyed by symbol. Its iteration order is the
  insertion order, which the order of the exit signals follows, so it is an association
  list: \<^const>\<open>AList.update\<close> overwrites in place or appends, as a dict assignment does.
\<close>

record PortfolioManager =
  positions :: "(string \<times> Position) list"
  target_delta :: rat

definition total_delta :: "PortfolioManager \<Rightarrow> rat" where
  "total_delta pm = sum_list (map (\<lambda>kv. net_delta (snd kv)) (positions pm))"

definition delta_deviation :: "PortfolioManager \<Rightarrow> rat" where
  "delta_deviation pm = total_delta pm - target_delta pm"

definition add_position :: "Position \<Rightarrow> PortfolioManager \<Rightarrow> PortfolioManager" where
  "add_position p pm = pm\<lparr>positions := AList.update (symbol p) p (positions pm)\<rparr>"

definition remove_position :: "string \<Rightarrow> PortfolioManager \<Rightarrow> PortfolioManager" where
  "remove_position s pm =
     (if s \<in> fst ` set (positions pm)
      then pm\<lparr>positions := AList.delete s (positions pm)\<rparr> else pm)"

text \<open>
  One keyword argument of \<open>update_position(symbol, **kwargs)\<close>: the name of a data
  attribute of \<open>Position\<close> with a value of its type, or a name \<open>hasattr\<close> rejects.
  (\<open>symbol\<close> cannot be passed as a keyword: it is the positional parameter.)
\<close>

datatype kwarg =
    Kw_quantity int
  | Kw_entry_price rat
  | Kw_current_price rat
  | Kw_delta rat
  | Kw_option_type string
  | Kw_strike_price int
  | Kw_expiry string
  | Kw_unknown string

fun setattr :: "kwarg \<Rightarrow> Position \<Rightarrow> Position" where
  "setattr (Kw_quantity v) p = p\<lparr>quantity := v\<rparr>"
| "setattr (Kw_entry_price v) p = p\<lparr>entry_price := v\<rparr>"
| "setattr (Kw_current_price v) p = p\<lparr>current_price := v\<rparr>"
| "setattr (Kw_delta v) p = p\<lparr>delta := v\<rparr>"
| "setattr (Kw_option_type v) p = p\<lparr>option_type := v\<rparr>"
| "setattr (Kw_strike_price v) p = p\<lparr>strike_price := v\<rparr>"
| "setattr (Kw_expiry v) p = p\<lparr>expiry := v\<rparr>"
| "setattr (Kw_unknown n) p = p"

definition update_position :: "string \<Rightarrow> kwarg list \<Rightarrow> PortfolioManager \<Rightarrow> PortfolioManager" where
  "update_position s kwargs pm =
     (case map_of (positions pm) s of
        None \<Rightarrow> pm
      | Some p \<Rightarrow> pm\<lparr>positions := AList.update s (fold setattr kwargs p) (positions pm)\<rparr>)"

record adjustment =
  adj_action :: string
  adj_option_type :: string
  adj_target_delta :: rat

definition get_adjustment_trades :: "PortfolioManager \<Rightarrow> rat \<Rightarrow> adjustment list" where
  "get_adjustment_trades pm threshold =
     (let deviation = delta_deviation pm in
      if \<bar>deviation\<bar> \<le> threshold then []
      else if deviation > threshold then
        [\<lparr>adj_action = ''BUY'', adj_option_type = ''PE'', adj_target_delta = - deviation\<rparr>]
      else if deviation < - threshold then
        [\<lparr>adj_action = ''BUY'', adj_option_type = ''CE'', adj_target_delta = \<bar>deviation\<bar>\<rparr>]
      else [])"

definition get_total_pnl :: "PortfolioManager \<Rightarrow> rat" where
  "get_total_pnl pm = sum_list (map (\<lambda>kv. pnl (snd kv)) (positions pm))"

section \<open>delta_neutral.py\<close>

text \<open>
  The configuration dictionary, restricted to the entries the strategy reads. The
  record carries every key the code subscripts, so the \<open>KeyError\<close> of a missing key
  is excluded by type. Percentages and factors come from JSON numbers.
\<close>

record config =
  capital :: rat
  max_loss_percentage :: rat
  target_profit_percentage :: rat
  cfg_target_delta :: rat
  position_sizing :: rat
  adjustment_threshold :: rat
  min_premium :: rat
  max_positions :: int

record DeltaNeutralStrategy =
  config :: config
  portfolio :: PortfolioManager

definition strategy_init :: "config \<Rightarrow> DeltaNeutralStrategy" where
  "strategy_init cfg =
     \<lparr>config = cfg, portfolio = \<lparr>positions = [], target_delta = cfg_target_delta cfg\<rparr>\<rparr>"

text \<open>One element of an options chain: the keys of the dictionary the code reads.\<close>

record option_data =
  opt_symbol :: string
  last_price :: rat
  bid_price :: rat
  ask_price :: rat
  instrument_type :: string
  strike :: rat
  opt_expiry :: string
  underlying_price :: rat

definition spread :: "option_data \<Rightarrow> rat" where
  "spread x = \<bar>bid_price x - ask_price x\<bar>"

definition strike_distance :: "rat \<Rightarrow> option_data \<Rightarrow> rat" where
  "strike_distance spot_price x = \<bar>strike x - spot_price\<bar>"

text \<open>
  \<open>list.sort(key=...)\<close> is a stable sort on the keys, and so is \<^const>\<open>sort_key\<close>;
  the result of a stable sort is determined by the list and the key.
\<close>

definition select_options :: "config \<Rightarrow> rat \<Rightarrow> option_data list \<Rightarrow> option_data list" where
  "select_options cfg spot_price options_chain =
     (let valid_options = filter (\<lambda>opt. min_premium cfg \<le> last_price opt) options_chain;
          valid_options = sort_key spread valid_options;
          call_options = filter (\<lambda>opt. instrument_type opt = ''CE'') valid_options;
          put_options = filter (\<lambda>opt. instrument_type opt = ''PE'') valid_options;
          selected_options =
            fold (\<lambda>options selected.
                    if options \<noteq> []
                    then selected @ py_slice_to (max_positions cfg div 2)
                                      (sort_key (strike_distance spot_price) options)
                    else selected)
                 [call_options, put_options] []
      in py_slice_to (max_positions cfg) selected_options)"

definition calculate_position_size :: "config \<Rightarrow> option_data \<Rightarrow> py_error + int" where
  "calculate_position_size cfg option =
     (let max_risk = capital cfg * (max_loss_percentage cfg / 100);
          option_price = last_price option
      in case py_truediv max_risk option_price of
           Inl e \<Rightarrow> Inl e
         | Inr r \<Rightarrow>
             (let max_quantity = py_int r;
                  target_quantity = py_int (of_int max_quantity * position_sizing cfg)
              in Inr (max 1 target_quantity)))"

definition check_adjustment_needed :: "DeltaNeutralStrategy \<Rightarrow> bool \<times> adjustment list" where
  "check_adjustment_needed s =
     (let adjustments = get_adjustment_trades (portfolio s) (adjustment_threshold (config s))
      in (adjustments \<noteq> [], adjustments))"

text \<open>
  One entry of a market-data snapshot, as \<open>update_positions\<close> reads it: the keys
  \<open>last_price\<close> and \<open>delta\<close> of the snapshot format. The snapshot is a dict from
  symbol to entry, an association list read with \<^const>\<open>map_of\<close>.
\<close>

record market_quote =
  md_last_price :: rat
  md_delta :: rat

definition update_positions ::
  "(string \<times> market_quote) list \<Rightarrow> DeltaNeutralStrategy \<Rightarrow> DeltaNeutralStrategy" where
  "update_positions market_data s =
     s\<lparr>portfolio :=
         fold (\<lambda>(symb, position) pm.
                 case map_of market_data symb of
                   None \<Rightarrow> pm
                 | Some data \<Rightarrow>
                     update_position symb
                       [Kw_current_price (md_last_price data), Kw_delta (md_delta data)] pm)
              (positions (portfolio s)) (portfolio s)\<rparr>"

record entry_signal =
  es_symbol :: string
  es_action :: string
  es_quantity :: int
  es_option_type :: string
  es_strike_price :: rat
  es_expiry :: string

fun entry_loop :: "config \<Rightarrow> entry_signal list \<Rightarrow> option_data list \<Rightarrow> py_error + entry_signal list" where
  "entry_loop cfg signals [] = Inr signals"
| "entry_loop cfg signals (option # rest) =
     (case calculate_position_size cfg option of
        Inl e \<Rightarrow> Inl e
      | Inr qty \<Rightarrow>
          entry_loop cfg
            (signals @ [\<lparr>es_symbol = opt_symbol option, es_action = ''BUY'',
                         es_quantity = qty, es_option_type = instrument_type option,
                         es_strike_price = strike option, es_expiry = opt_expiry option\<rparr>])
            rest)"

definition get_entry_signals ::
  "DeltaNeutralStrategy \<Rightarrow> option_data list \<Rightarrow> py_error + entry_signal list" where
  "get_entry_signals s options_data =
     (let current_positions = int (length (positions (portfolio s)));
          max_pos = max_positions (config s)
      in if current_positions \<ge> max_pos then Inr []
         else case options_data of
                [] \<Rightarrow> Inl IndexError
              | first # _ \<Rightarrow>
                  entry_loop (config s) []
                    (select_options (config s) (underlying_price first) options_data))"

record exit_signal =
  xs_symbol :: string
  xs_action :: string
  xs_quantity :: int
  xs_reason :: string

fun exit_loop :: "rat \<Rightarrow> rat \<Rightarrow> exit_signal list \<Rightarrow> (string \<times> Position) list \<Rightarrow> py_error + exit_signal list" where
  "exit_loop target_profit max_loss signals [] = Inr signals"
| "exit_loop target_profit max_loss signals ((symb, position) # rest) =
     (case py_truediv (pnl position) (entry_price position * of_int (quantity position)) of
        Inl e \<Rightarrow> Inl e
      | Inr pnl_percentage \<Rightarrow>
          exit_loop target_profit max_loss
            (if pnl_percentage \<ge> target_profit \<or> pnl_percentage \<le> - max_loss
             then signals @ [\<lparr>xs_symbol = symb, xs_action = ''SELL'',
                               xs_quantity = quantity position,
                               xs_reason = (if pnl_percentage \<ge> target_profit
                                            then ''target_hit'' else ''stop_loss'')\<rparr>]
             else signals)
            rest)"

definition get_exit_signals :: "DeltaNeutralStrategy \<Rightarrow> py_error + exit_signal list" where
  "get_exit_signals s =
     (let target_profit = target_profit_percentage (config s) / 100;
          max_loss = max_loss_percentage (config s) / 100
      in exit_loop target_profit max_loss [] (positions (portfolio s)))"

section \<open>paper_trading.py and base.py\<close>

text \<open>
  One entry of the executor's market data. \<open>place_order\<close> subscripts \<open>last_price\<close>
  and reads the other keys with \<open>.get(key, default)\<close>, so these may be absent.
\<close>

record paper_quote =
  pq_last_price :: rat
  pq_delta :: "rat option"
  pq_instrument_type :: "string option"
  pq_strike :: "int option"
  pq_expiry :: "string option"

text \<open>The order dictionary, without its wall-clock timestamp.\<close>

record order =
  ord_symbol :: string
  ord_quantity :: int
  ord_side :: string
  ord_type :: string
  ord_price :: rat
  ord_status :: string
  ord_id :: nat

record PaperTradingExecutor =
  strategy :: DeltaNeutralStrategy
  pt_positions :: "(string \<times> Position) list"
  orders :: "order list"
  market_data :: "(string \<times> paper_quote) list"


definition simulated_quote :: paper_quote where
  "simulated_quote =
     \<lparr>pq_last_price = 100, pq_delta = Some (1 / 2), pq_instrument_type = Some ''CE'',
      pq_strike = Some 100, pq_expiry = Some ''2024-01-31''\<rparr>"

definition get_market_data ::
  "PaperTradingExecutor \<Rightarrow> string list \<Rightarrow> (string \<times> paper_quote) list" where
  "get_market_data ex symbols =
     (if market_data ex = [] then map (\<lambda>s. (s, simulated_quote)) symbols
      else concat (map (\<lambda>s. case map_of (market_data ex) s of
                                None \<Rightarrow> [] | Some data \<Rightarrow> [(s, data)]) symbols))"

text \<open>
  \<open>place_order\<close> mutates the executor and then returns or raises, so the model returns
  the outcome together with the executor as the call leaves it: the order is appended
  to \<open>orders\<close> before the positions are touched, and stays there when the averaging
  division raises.
\<close>

definition place_order ::
  "string \<Rightarrow> int \<Rightarrow> string \<Rightarrow> string \<Rightarrow> PaperTradingExecutor
     \<Rightarrow> (py_error + order) \<times> PaperTradingExecutor" where
  "place_order symb qty side order_type ex =
     (let md = get_market_data ex [symb] in
      case (if md = [] then None else map_of md symb) of
        None \<Rightarrow> (Inl (ValueError (''No market data available for '' @ symb)), ex)
      | Some data \<Rightarrow>
          (let price = pq_last_price data;
               order = \<lparr>ord_symbol = symb, ord_quantity = qty, ord_side = side,
                        ord_type = order_type, ord_price = price,
                        ord_status = ''COMPLETE'', ord_id = length (orders ex) + 1\<rparr>;
               ex = ex\<lparr>orders := orders ex @ [order]\<rparr>
           in if side = ''BUY'' then
                (case map_of (pt_positions ex) symb of
                   None \<Rightarrow>
                     (Inr order,
                      ex\<lparr>pt_positions :=
                           AList.update symb
                             \<lparr>symbol = symb, quantity = qty, entry_price = price,
                              current_price = price,
                              delta = (case pq_delta data of None \<Rightarrow> 0 | Some d \<Rightarrow> d),
                              option_type =
                                (case pq_instrument_type data of None \<Rightarrow> [] | Some t \<Rightarrow> t),
                              strike_price = (case pq_strike data of None \<Rightarrow> 0 | Some k \<Rightarrow> k),
                              expiry = (case pq_expiry data of None \<Rightarrow> [] | Some e \<Rightarrow> e)\<rparr>
                             (pt_positions ex)\<rparr>)
                 | Some pos \<Rightarrow>
                     (case py_truediv
                             (entry_price pos * of_int (quantity pos) + price * of_int qty)
                             (of_int (quantity pos + qty)) of
                        Inl e \<Rightarrow> (Inl e, ex)
                      | Inr avg_price \<Rightarrow>
                          (Inr order,
                           ex\<lparr>pt_positions :=
                                AList.update symb
                                  (pos\<lparr>quantity := quantity pos + qty, entry_price := avg_price\<rparr>)
                                  (pt_positions ex)\<rparr>)))
              else if side = ''SELL'' then
                (case map_of (pt_positions ex) symb of
                   None \<Rightarrow> (Inr order, ex)
                 | Some pos \<Rightarrow>
                     (let pos = pos\<lparr>quantity := quantity pos - qty\<rparr>
                      in if quantity pos \<le> 0
                         then (Inr order, ex\<lparr>pt_positions := AList.delete symb (pt_positions ex)\<rparr>)
                         else (Inr order, ex\<lparr>pt_positions := AList.update symb pos (pt_positions ex)\<rparr>)))
              else (Inr order, ex)))"



section \<open>config.py\<close>

text \<open>
  The configuration document as \<open>json.load\<close> returns it: an object of sections, each
  section an object from field names to JSON values.
\<close>

datatype json =
    JNull
  | JBool bool
  | JNum rat
  | JStr string
  | JArr "json list"
  | JObj "(string \<times> json) list"

type_synonym config_section = "(string \<times> json) list"

type_synonym config_document = "(string \<times> config_section) list"

definition REQUIRED_FIELDS :: "(string \<times> string list) list" where
  "REQUIRED_FIELDS =
     [(''trading'', [''mode'', ''capital'', ''max_loss_percentage'', ''target_profit_percentage'']),
      (''strategy'', [''target_delta'', ''position_sizing'', ''adjustment_threshold'']),
      (''zerodha'', [''api_key'', ''api_secret''])]"

fun validate_fields :: "string \<Rightarrow> config_section \<Rightarrow> string list \<Rightarrow> py_error + unit" where
  "validate_fields section sect [] = Inr ()"
| "validate_fields section sect (field # rest) =
     (if field \<notin> set (map fst sect)
      then Inl (ValueError (''Missing required config field: '' @ section @ ''.'' @ field))
      else validate_fields section sect rest)"

fun validate_sections :: "config_document \<Rightarrow> (string \<times> string list) list \<Rightarrow> py_error + unit" where
  "validate_sections doc [] = Inr ()"
| "validate_sections doc ((section, names) # rest) =
     (case map_of doc section of
        None \<Rightarrow> Inl (ValueError (''Missing required config section: '' @ section))
      | Some sect \<Rightarrow>
          (case validate_fields section sect names of
             Inl e \<Rightarrow> Inl e
           | Inr u \<Rightarrow> validate_sections doc rest))"

definition validate_config :: "config_document \<Rightarrow> py_error + unit" where
  "validate_config doc = validate_sections doc REQUIRED_FIELDS"

text \<open>
  The strategy is handed the validated document and reads it by subscripting,
  \<open>self.config[section][field]\<close>, which raises \<open>KeyError\<close> on a missing key.
\<close>

definition config_subscript :: "config_document \<Rightarrow> string \<Rightarrow> string \<Rightarrow> py_error + json" where
  "config_subscript doc section field =
     (case map_of doc section of
        None \<Rightarrow> Inl (KeyError section)
      | Some sect \<Rightarrow>
          (case map_of sect field of None \<Rightarrow> Inl (KeyError field) | Some v \<Rightarrow> Inr v))"

text \<open>
  \<open>_load_config\<close> reads the file at the configured path: \<open>None\<close> stands for a path
  where no file exists, \<open>Some doc\<close> for a file holding the document \<open>doc\<close>.
\<close>

definition load_config :: "config_document option \<Rightarrow> py_error + config_document" where
  "load_config file = (case file of None \<Rightarrow> Inl FileNotFoundError | Some doc \<Rightarrow> Inr doc)"

definition ConfigManager_init :: "config_document option \<Rightarrow> py_error + config_document" where
  "ConfigManager_init file =
     (case load_config file of
        Inl e \<Rightarrow> Inl e
      | Inr doc \<Rightarrow> (case validate_config doc of Inl e \<Rightarrow> Inl e | Inr u \<Rightarrow> Inr doc))"

section \<open>Concrete inputs\<close>

text \<open>A configuration, a position and an option quote on which the operations are run.\<close>

definition sample_config :: config where
  "sample_config =
     \<lparr>capital = 100000, max_loss_percentage = 2, target_profit_percentage = 15,
      cfg_target_delta = 0, position_sizing = 1, adjustment_threshold = 1,
      min_premium = 5, max_positions = 4\<rparr>"

definition sample_position :: Position where
  "sample_position =
     \<lparr>symbol = ''NIFTY21000CE'', quantity = 10, entry_price = 100, current_price = 120,
      delta = 1 / 2, option_type = ''CE'', strike_price = 21000, expiry = ''2024-01-31''\<rparr>"



text \<open>
  A configuration document holding exactly the sections and fields of
  \<^const>\<open>REQUIRED_FIELDS\<close>: no \<open>trading.trading_hours\<close>, no \<open>strategy.min_premium\<close>
  and no \<open>strategy.max_positions\<close>.
\<close>

definition sample_document :: config_document where
  "sample_document =
     [(''trading'', [(''mode'', JStr ''paper''), (''capital'', JNum 100000),
                     (''max_loss_percentage'', JNum 2),
                     (''target_profit_percentage'', JNum 15)]),
      (''strategy'', [(''target_delta'', JNum 0), (''position_sizing'', JNum 1),
                      (''adjustment_threshold'', JNum 1)]),
      (''zerodha'', [(''api_key'', JStr ''key''), (''api_secret'', JStr ''secret'')])]"

text \<open>
  A paper-trading executor that holds the sample position (10 contracts bought at 100)
  while the market quotes the symbol at 110.
\<close>

definition sample_quote :: paper_quote where
  "sample_quote =
     \<lparr>pq_last_price = 110, pq_delta = Some (1 / 2), pq_instrument_type = Some ''CE'',
      pq_strike = Some 21000, pq_expiry = Some ''2024-01-31''\<rparr>"

definition sample_executor :: PaperTradingExecutor where
  "sample_executor =
     \<lparr>strategy = strategy_init sample_config,
      pt_positions = [(''NIFTY21000CE'', sample_position)],
      orders = [],
      market_data = [(''NIFTY21000CE'', sample_quote)]\<rparr>"

text \<open>
  A strategy holding a call and a put, and a market-data snapshot that quotes the call
  and a symbol that is not held.
\<close>

definition sample_strategy :: DeltaNeutralStrategy where
  "sample_strategy =
     \<lparr>config = sample_config,
      portfolio =
        \<lparr>positions =
           [(''NIFTY21000CE'', sample_position),
            (''NIFTY21000PE'',
             sample_position\<lparr>symbol := ''NIFTY21000PE'', delta := - 1 / 2,
                             option_type := ''PE''\<rparr>)],
         target_delta = 0\<rparr>\<rparr>"

definition sample_snapshot :: "(string \<times> market_quote) list" where
  "sample_snapshot =
     [(''NIFTY21000CE'', \<lparr>md_last_price = 130, md_delta = 3 / 5\<rparr>),
      (''BANKNIFTY45000PE'', \<lparr>md_last_price = 80, md_delta = - 2 / 5\<rparr>)]"

section \<open>Delta adjustment\<close>




section \<open>Exit signals\<close>



text \<open>
  A position whose entry price or quantity is zero makes the whole call raise, whatever
  the other positions are: the division has no guard.
\<close>

lemma exit_loop_zero:
  assumes "(symb, p) \<in> set ps" and "entry_price p = 0 \<or> quantity p = 0"
  shows "exit_loop tp ml acc ps = Inl ZeroDivisionError"
  using assms
proof (induction ps arbitrary: acc)
  case Nil
  then show ?case by simp
next
  case (Cons kv ps)
  obtain k q where kv: "kv = (k, q)" by (cases kv)
  show ?case
  proof (cases "entry_price q * of_int (quantity q) = 0")
    case True
    then show ?thesis unfolding kv by (simp add: py_truediv_def)
  next
    case False
    with Cons.prems have "(symb, p) \<in> set ps" by (auto simp: kv)
    then show ?thesis
      unfolding kv using False Cons.IH Cons.prems(2) by (simp add: py_truediv_def)
  qed
qed



text \<open>
  Claim C4 on the code. A portfolio holding one position with entry price zero, or one
  with quantity zero: \<open>get_exit_signals\<close> raises \<open>ZeroDivisionError\<close> instead of
  returning a list without a signal for that position.
\<close>

theorem get_exit_signals_zero_division:
  "get_exit_signals
     \<lparr>config = sample_config,
      portfolio = \<lparr>positions = [(''NIFTY21000CE'', sample_position\<lparr>entry_price := 0\<rparr>)],
                   target_delta = 0\<rparr>\<rparr> = Inl ZeroDivisionError
   \<and> get_exit_signals
     \<lparr>config = sample_config,
      portfolio = \<lparr>positions = [(''NIFTY21000CE'', sample_position\<lparr>quantity := 0\<rparr>)],
                   target_delta = 0\<rparr>\<rparr> = Inl ZeroDivisionError"
  by (simp add: get_exit_signals_def py_truediv_def sample_position_def)

text \<open>The same for every portfolio that contains such a position.\<close>

lemma get_exit_signals_raises:
  assumes "(symb, p) \<in> set (positions (portfolio s))"
    and "entry_price p = 0 \<or> quantity p = 0"
  shows "get_exit_signals s = Inl ZeroDivisionError"
  unfolding get_exit_signals_def Let_def using assms by (rule exit_loop_zero)

section \<open>Entry signals\<close>

text \<open>At the position limit \<open>get_entry_signals\<close> returns no signal, whatever the chain.\<close>

lemma get_entry_signals_at_capacity:
  "int (length (positions (portfolio s))) \<ge> max_positions (config s) \<Longrightarrow>
   get_entry_signals s options_data = Inr []"
  by (simp add: get_entry_signals_def)

text \<open>
  Claim C3 on the code. Below the position limit (no position, limit 4) and with an
  empty options chain, \<open>get_entry_signals\<close> reads \<open>options_data[0]\<close> and raises
  \<open>IndexError\<close> instead of returning the empty list.
\<close>

theorem get_entry_signals_empty_chain:
  "int (length (positions (portfolio (strategy_init sample_config))))
     < max_positions (config (strategy_init sample_config))
   \<and> get_entry_signals (strategy_init sample_config) [] = Inl IndexError"
  by (simp add: get_entry_signals_def strategy_init_def sample_config_def)

section \<open>Position sizing\<close>







section \<open>Option selection\<close>




















section \<open>Configuration validation\<close>

lemma validate_fields_ok:
  "validate_fields section sect names = Inr () \<longleftrightarrow> set names \<subseteq> set (map fst sect)"
  by (induction names) auto

lemma validate_fields_error:
  "validate_fields section sect names = Inl e \<Longrightarrow> \<exists>msg. e = ValueError msg"
  by (induction names) (auto split: if_splits)

lemma validate_sections_ok:
  "validate_sections doc req = Inr () \<longleftrightarrow>
     (\<forall>(section, names) \<in> set req.
        \<exists>sect. map_of doc section = Some sect \<and> set names \<subseteq> set (map fst sect))"
proof (induction req)
  case Nil
  show ?case by simp
next
  case (Cons r req)
  obtain sec names where r: "r = (sec, names)" by (cases r)
  show ?case
  proof (cases "map_of doc sec")
    case None
    then show ?thesis by (simp add: r)
  next
    case (Some sect)
    show ?thesis
    proof (cases "validate_fields sec sect names")
      case (Inl e)
      then have "\<not> set names \<subseteq> set (map fst sect)"
        using validate_fields_ok [of sec sect names] by simp
      with Inl Some show ?thesis by (simp add: r)
    next
      case (Inr u)
      then have "set names \<subseteq> set (map fst sect)"
        using validate_fields_ok [of sec sect names] by simp
      with Inr Some Cons.IH show ?thesis by (simp add: r)
    qed
  qed
qed

text \<open>What the validation does check: the sections and fields of the table.\<close>

lemma validate_config_ok:
  "validate_config doc = Inr () \<longleftrightarrow>
     (\<forall>(section, names) \<in> set REQUIRED_FIELDS.
        \<exists>sect. map_of doc section = Some sect \<and> set names \<subseteq> set (map fst sect))"
  unfolding validate_config_def by (rule validate_sections_ok)

lemma ConfigManager_init_ok:
  "(\<exists>cfg. ConfigManager_init file = Inr cfg) \<longleftrightarrow>
     (\<exists>doc. file = Some doc \<and> validate_config doc = Inr ())"
  by (cases "file"; cases "validate_config (the file)")
     (auto simp: ConfigManager_init_def load_config_def)

text \<open>
  Claim C9 on the code. The sample document lacks \<open>trading.trading_hours\<close>,
  \<open>strategy.min_premium\<close> and \<open>strategy.max_positions\<close>, all of which the strategy
  subscripts, and still passes the validation: constructing the configuration manager
  succeeds. The table of required fields does not list the three, and the strategy's
  reads of them then raise \<open>KeyError\<close>.
\<close>

theorem ConfigManager_init_accepts_incomplete:
  "map_of sample_document ''trading'' \<noteq> None
   \<and> ''trading_hours'' \<notin> set (map fst (the (map_of sample_document ''trading'')))
   \<and> map_of sample_document ''strategy'' \<noteq> None
   \<and> ''min_premium'' \<notin> set (map fst (the (map_of sample_document ''strategy'')))
   \<and> ''max_positions'' \<notin> set (map fst (the (map_of sample_document ''strategy'')))
   \<and> validate_config sample_document = Inr ()
   \<and> ConfigManager_init (Some sample_document) = Inr sample_document
   \<and> config_subscript sample_document ''strategy'' ''min_premium''
       = Inl (KeyError ''min_premium'')
   \<and> config_subscript sample_document ''strategy'' ''max_positions''
       = Inl (KeyError ''max_positions'')
   \<and> config_subscript sample_document ''trading'' ''trading_hours''
       = Inl (KeyError ''trading_hours'')"
  by (simp add: ConfigManager_init_def load_config_def validate_config_def REQUIRED_FIELDS_def
        config_subscript_def sample_document_def)

section \<open>Paper-trading positions\<close>



















lemma sample_sell:
  "pt_positions (snd (place_order ''NIFTY21000CE'' 20 ''SELL'' ''MARKET'' sample_executor)) = []"
  by (simp add: place_order_def get_market_data_def sample_executor_def sample_quote_def
        sample_position_def Let_def)



section \<open>Refreshing the marks\<close>

lemma alist_update_mid:
  "k \<notin> fst ` set xs \<Longrightarrow> AList.update k v (xs @ (k, w) # ys) = xs @ (k, v) # ys"
  by (induction xs) auto

lemma map_of_mid:
  "k \<notin> fst ` set xs \<Longrightarrow> map_of (xs @ (k, w) # ys) k = Some w"
  by (induction xs) auto

lemma update_position_mid:
  assumes "k \<notin> fst ` set xs" and "positions pm = xs @ (k, p) # ys"
  shows "positions (update_position k kwargs pm) = xs @ (k, fold setattr kwargs p) # ys"
    and "target_delta (update_position k kwargs pm) = target_delta pm"
proof -
  have look: "map_of (positions pm) k = Some p"
    unfolding assms(2) using assms(1) by (rule map_of_mid)
  show "positions (update_position k kwargs pm) = xs @ (k, fold setattr kwargs p) # ys"
    unfolding update_position_def look
    by (simp add: assms(2) alist_update_mid [OF assms(1)])
  show "target_delta (update_position k kwargs pm) = target_delta pm"
    unfolding update_position_def look by simp
qed

text \<open>
  The keys of the positions are distinct in a fresh portfolio, and every operation of
  the portfolio manager keeps them so.
\<close>

lemma strategy_init_distinct:
  "distinct (map fst (positions (portfolio (strategy_init cfg))))"
  by (simp add: strategy_init_def)

lemma add_position_distinct:
  "distinct (map fst (positions pm)) \<Longrightarrow> distinct (map fst (positions (add_position p pm)))"
  by (simp add: add_position_def distinct_update)

lemma remove_position_distinct:
  "distinct (map fst (positions pm)) \<Longrightarrow> distinct (map fst (positions (remove_position k pm)))"
  by (simp add: remove_position_def distinct_delete)

lemma update_position_distinct:
  "distinct (map fst (positions pm)) \<Longrightarrow>
   distinct (map fst (positions (update_position k kwargs pm)))"
  by (simp add: update_position_def distinct_update split: option.splits)

text \<open>The loop of \<open>update_positions\<close>, with the positions already visited in front.\<close>

lemma update_loop:
  assumes "distinct (map fst (seen @ todo))"
    and "positions pm =
           map (\<lambda>(k, p). case map_of snapshot k of
                            None \<Rightarrow> (k, p)
                          | Some d \<Rightarrow> (k, p\<lparr>current_price := md_last_price d,
                                              delta := md_delta d\<rparr>)) seen @ todo"
  shows "positions
           (fold (\<lambda>(symb, position) pm.
                    case map_of snapshot symb of
                      None \<Rightarrow> pm
                    | Some data \<Rightarrow>
                        update_position symb
                          [Kw_current_price (md_last_price data), Kw_delta (md_delta data)] pm)
              todo pm) =
         map (\<lambda>(k, p). case map_of snapshot k of
                          None \<Rightarrow> (k, p)
                        | Some d \<Rightarrow> (k, p\<lparr>current_price := md_last_price d,
                                            delta := md_delta d\<rparr>)) (seen @ todo)
         \<and> target_delta
           (fold (\<lambda>(symb, position) pm.
                    case map_of snapshot symb of
                      None \<Rightarrow> pm
                    | Some data \<Rightarrow>
                        update_position symb
                          [Kw_current_price (md_last_price data), Kw_delta (md_delta data)] pm)
              todo pm) = target_delta pm"
  using assms
proof (induction todo arbitrary: seen pm)
  case Nil
  then show ?case by simp
next
  case (Cons kv todo)
  obtain k p where kv: "kv = (k, p)" by (cases kv)
  let ?refresh = "\<lambda>(k, p). case map_of snapshot k of
                            None \<Rightarrow> (k, p)
                          | Some d \<Rightarrow> (k, p\<lparr>current_price := md_last_price d,
                                              delta := md_delta d\<rparr>)"
  let ?step = "\<lambda>(symb, position) pm.
                    case map_of snapshot symb of
                      None \<Rightarrow> pm
                    | Some data \<Rightarrow>
                        update_position symb
                          [Kw_current_price (md_last_price data), Kw_delta (md_delta data)] pm"
  have keys: "fst ` set (map ?refresh seen) = fst ` set seen"
    by (force split: option.splits)
  from Cons.prems(1) have fresh: "k \<notin> fst ` set (map ?refresh seen)"
    unfolding keys by (auto simp: kv)
  have dist: "distinct (map fst ((seen @ [(k, p)]) @ todo))"
    using Cons.prems(1) by (simp add: kv)
  have pos: "positions pm = map ?refresh seen @ (k, p) # todo"
    using Cons.prems(2) by (simp add: kv)
  have step_pos: "positions (?step (k, p) pm) = map ?refresh (seen @ [(k, p)]) @ todo"
    and step_td: "target_delta (?step (k, p) pm) = target_delta pm"
    using update_position_mid [OF fresh pos] pos
    by (simp_all split: option.splits)
  from Cons.IH [OF dist step_pos] step_td
  show ?case by (simp add: kv)
qed

text \<open>
  Claim C10. On a portfolio (a dict, so its keys are distinct) \<open>update_positions\<close>
  keeps the positions and their order, overwrites \<open>current_price\<close> and \<open>delta\<close> of
  exactly the positions whose symbol the snapshot quotes, with the quoted values, leaves
  every other position as it is, and leaves \<open>symbol\<close>, \<open>quantity\<close>, \<open>entry_price\<close>,
  \<open>option_type\<close>, \<open>strike_price\<close> and \<open>expiry\<close> of every position, the target delta
  and the configuration unchanged.
\<close>

theorem update_positions_frame:
  "distinct (map fst (positions (portfolio s))) \<longrightarrow>
     positions (portfolio (update_positions snapshot s)) =
       map (\<lambda>(k, p). case map_of snapshot k of
                        None \<Rightarrow> (k, p)
                      | Some d \<Rightarrow> (k, p\<lparr>current_price := md_last_price d, delta := md_delta d\<rparr>))
           (positions (portfolio s))
     \<and> target_delta (portfolio (update_positions snapshot s)) = target_delta (portfolio s)
     \<and> config (update_positions snapshot s) = config s
     \<and> (\<forall>i < length (positions (portfolio s)).
          fst (positions (portfolio (update_positions snapshot s)) ! i)
            = fst (positions (portfolio s) ! i)
          \<and> symbol (snd (positions (portfolio (update_positions snapshot s)) ! i))
              = symbol (snd (positions (portfolio s) ! i))
          \<and> quantity (snd (positions (portfolio (update_positions snapshot s)) ! i))
              = quantity (snd (positions (portfolio s) ! i))
          \<and> entry_price (snd (positions (portfolio (update_positions snapshot s)) ! i))
              = entry_price (snd (positions (portfolio s) ! i))
          \<and> option_type (snd (positions (portfolio (update_positions snapshot s)) ! i))
              = option_type (snd (positions (portfolio s) ! i))
          \<and> strike_price (snd (positions (portfolio (update_positions snapshot s)) ! i))
              = strike_price (snd (positions (portfolio s) ! i))
          \<and> expiry (snd (positions (portfolio (update_positions snapshot s)) ! i))
              = expiry (snd (positions (portfolio s) ! i))
          \<and> (map_of snapshot (fst (positions (portfolio s) ! i)) = None \<longrightarrow>
               positions (portfolio (update_positions snapshot s)) ! i
                 = positions (portfolio s) ! i)
          \<and> (\<forall>d. map_of snapshot (fst (positions (portfolio s) ! i)) = Some d \<longrightarrow>
               current_price (snd (positions (portfolio (update_positions snapshot s)) ! i))
                 = md_last_price d
               \<and> delta (snd (positions (portfolio (update_positions snapshot s)) ! i))
                 = md_delta d))"
proof (intro impI)
  assume d: "distinct (map fst (positions (portfolio s)))"
  let ?refresh = "\<lambda>(k, p). case map_of snapshot k of
                        None \<Rightarrow> (k, p)
                      | Some d \<Rightarrow> (k, p\<lparr>current_price := md_last_price d, delta := md_delta d\<rparr>)"
  from update_loop [of "[]" "positions (portfolio s)" "portfolio s" snapshot] d
  have eq: "positions (portfolio (update_positions snapshot s)) =
              map ?refresh (positions (portfolio s))"
    and td: "target_delta (portfolio (update_positions snapshot s))
               = target_delta (portfolio s)"
    by (simp_all add: update_positions_def)
  have cfg: "config (update_positions snapshot s) = config s"
    by (simp add: update_positions_def)
  have each: "fst (?refresh kv) = fst kv
      \<and> symbol (snd (?refresh kv)) = symbol (snd kv)
      \<and> quantity (snd (?refresh kv)) = quantity (snd kv)
      \<and> entry_price (snd (?refresh kv)) = entry_price (snd kv)
      \<and> option_type (snd (?refresh kv)) = option_type (snd kv)
      \<and> strike_price (snd (?refresh kv)) = strike_price (snd kv)
      \<and> expiry (snd (?refresh kv)) = expiry (snd kv)
      \<and> (map_of snapshot (fst kv) = None \<longrightarrow> ?refresh kv = kv)
      \<and> (\<forall>d. map_of snapshot (fst kv) = Some d \<longrightarrow>
            current_price (snd (?refresh kv)) = md_last_price d
            \<and> delta (snd (?refresh kv)) = md_delta d)" for kv
    by (cases kv) (simp split: option.splits)
  show "positions (portfolio (update_positions snapshot s)) =
       map ?refresh (positions (portfolio s))
     \<and> target_delta (portfolio (update_positions snapshot s)) = target_delta (portfolio s)
     \<and> config (update_positions snapshot s) = config s
     \<and> (\<forall>i < length (positions (portfolio s)).
          fst (positions (portfolio (update_positions snapshot s)) ! i)
            = fst (positions (portfolio s) ! i)
          \<and> symbol (snd (positions (portfolio (update_positions snapshot s)) ! i))
              = symbol (snd (positions (portfolio s) ! i))
          \<and> quantity (snd (positions (portfolio (update_positions snapshot s)) ! i))
              = quantity (snd (positions (portfolio s) ! i))
          \<and> entry_price (snd (positions (portfolio (update_positions snapshot s)) ! i))
              = entry_price (snd (positions (portfolio s) ! i))
          \<and> option_type (snd (positions (portfolio (update_positions snapshot s)) ! i))
              = option_type (snd (positions (portfolio s) ! i))
          \<and> strike_price (snd (positions (portfolio (update_positions snapshot s)) ! i))
              = strike_price (snd (positions (portfolio s) ! i))
          \<and> expiry (snd (positions (portfolio (update_positions snapshot s)) ! i))
              = expiry (snd (positions (portfolio s) ! i))
          \<and> (map_of snapshot (fst (positions (portfolio s) ! i)) = None \<longrightarrow>
               positions (portfolio (update_positions snapshot s)) ! i
                 = positions (portfolio s) ! i)
          \<and> (\<forall>d. map_of snapshot (fst (positions (portfolio s) ! i)) = Some d \<longrightarrow>
               current_price (snd (positions (portfolio (update_positions snapshot s)) ! i))
                 = md_last_price d
               \<and> delta (snd (positions (portfolio (update_positions snapshot s)) ! i))
                 = md_delta d))"
  proof (intro conjI allI impI)
    show "positions (portfolio (update_positions snapshot s)) =
            map ?refresh (positions (portfolio s))" by (rule eq)
    show "target_delta (portfolio (update_positions snapshot s)) = target_delta (portfolio s)"
      by (rule td)
    show "config (update_positions snapshot s) = config s" by (rule cfg)
  next
    fix i assume i: "i < length (positions (portfolio s))"
    have nth: "positions (portfolio (update_positions snapshot s)) ! i
                 = ?refresh (positions (portfolio s) ! i)"
      unfolding eq using i by simp
    note e = each [of "positions (portfolio s) ! i", folded nth]
    show "fst (positions (portfolio (update_positions snapshot s)) ! i)
            = fst (positions (portfolio s) ! i)" using e by blast
    show "symbol (snd (positions (portfolio (update_positions snapshot s)) ! i))
              = symbol (snd (positions (portfolio s) ! i))" using e by blast
    show "quantity (snd (positions (portfolio (update_positions snapshot s)) ! i))
              = quantity (snd (positions (portfolio s) ! i))" using e by blast
    show "entry_price (snd (positions (portfolio (update_positions snapshot s)) ! i))
              = entry_price (snd (positions (portfolio s) ! i))" using e by blast
    show "option_type (snd (positions (portfolio (update_positions snapshot s)) ! i))
              = option_type (snd (positions (portfolio s) ! i))" using e by blast
    show "strike_price (snd (positions (portfolio (update_positions snapshot s)) ! i))
              = strike_price (snd (positions (portfolio s) ! i))" using e by blast
    show "expiry (snd (positions (portfolio (update_positions snapshot s)) ! i))
              = expiry (snd (positions (portfolio s) ! i))" using e by blast
    {
      assume "map_of snapshot (fst (positions (portfolio s) ! i)) = None"
      then show "positions (portfolio (update_positions snapshot s)) ! i
                 = positions (portfolio s) ! i" using e by blast
    }
    {
      fix d assume "map_of snapshot (fst (positions (portfolio s) ! i)) = Some d"
      then show "current_price (snd (positions (portfolio (update_positions snapshot s)) ! i))
                 = md_last_price d" 
        and "delta (snd (positions (portfolio (update_positions snapshot s)) ! i))
                 = md_delta d" using e by blast+
    }
  qed
qed

text \<open>The theorem on the sample strategy: the call is quoted and re-marked, the put is not.\<close>

theorem update_positions_frame_witness:
  "distinct (map fst (positions (portfolio sample_strategy)))
   \<and> positions (portfolio (update_positions sample_snapshot sample_strategy)) =
       [(''NIFTY21000CE'', sample_position\<lparr>current_price := 130, delta := 3 / 5\<rparr>),
        (''NIFTY21000PE'',
         sample_position\<lparr>symbol := ''NIFTY21000PE'', delta := - 1 / 2, option_type := ''PE''\<rparr>)]
   \<and> target_delta (portfolio (update_positions sample_snapshot sample_strategy)) = 0"
proof -
  have d: "distinct (map fst (positions (portfolio sample_strategy)))"
    by (simp add: sample_strategy_def)
  from update_positions_frame [of sample_strategy sample_snapshot, THEN mp, OF d]
  have eq: "positions (portfolio (update_positions sample_snapshot sample_strategy)) =
       map (\<lambda>(k, p). case map_of sample_snapshot k of
                        None \<Rightarrow> (k, p)
                      | Some d \<Rightarrow> (k, p\<lparr>current_price := md_last_price d, delta := md_delta d\<rparr>))
           (positions (portfolio sample_strategy))"
    and td: "target_delta (portfolio (update_positions sample_snapshot sample_strategy))
               = target_delta (portfolio sample_strategy)"
    by blast+
  have pos: "positions (portfolio (update_positions sample_snapshot sample_strategy)) =
       [(''NIFTY21000CE'', sample_position\<lparr>current_price := 130, delta := 3 / 5\<rparr>),
        (''NIFTY21000PE'',
         sample_position\<lparr>symbol := ''NIFTY21000PE'', delta := - 1 / 2, option_type := ''PE''\<rparr>)]"
    unfolding eq by (simp add: sample_strategy_def sample_snapshot_def)
  have zero: "target_delta (portfolio (update_positions sample_snapshot sample_strategy)) = 0"
    unfolding td by (simp add: sample_strategy_def)
  from d pos zero show ?thesis by (intro conjI)
qed

end
